theory Spec2Isabelle
  imports Main
begin

section \<open>The blind-token server (server/main.go)\<close>

text \<open>
  A shallow embedding of \<^verbatim>\<open>server/main.go\<close>: the request handler \<^verbatim>\<open>handle\<close>, the
  configuration loader \<^verbatim>\<open>loadConfigFile\<close>, \<^verbatim>\<open>loadKeys\<close>, the accept loop of
  \<^verbatim>\<open>ListenAndServe\<close> and \<^verbatim>\<open>main\<close>.

  Byte slices and Go strings are \<open>string\<close> (lists of 8-bit characters). What the code
  calls in other packages (the JSON decoder, \<^verbatim>\<open>btd.HandleIssue\<close>, \<^verbatim>\<open>btd.HandleRedeem\<close>,
  the key and commitment file parsers, the network) is a parameter of the model, and the
  theorems hold for any behaviour of those packages. Everything the code does besides
  returning a value (counters, log lines, writes to the connection, calls into package
  \<^verbatim>\<open>btd\<close>) is recorded, in program order, in a trace.
\<close>

subsection \<open>Errors\<close>

text \<open>
  A Go \<^verbatim>\<open>error\<close> value. The handler distinguishes \<^verbatim>\<open>*net.OpError\<close> from every other
  error, and reads the text of the error wrapped inside it; of every other error only the
  text of \<^verbatim>\<open>Error()\<close> is used.
\<close>

datatype go_error =
    OpError string string  \<comment> \<open>\<^verbatim>\<open>*net.OpError\<close>: its own \<^verbatim>\<open>Error()\<close> text, then \<^verbatim>\<open>opErr.Err.Error()\<close>\<close>
  | ErrorValue string      \<comment> \<open>any other error, with its \<^verbatim>\<open>Error()\<close> text\<close>

fun error_text :: "go_error \<Rightarrow> string" where
  "error_text (OpError full inner) = full"
| "error_text (ErrorValue t) = t"

definition ErrEmptyKeyPath :: go_error where
  "ErrEmptyKeyPath = ErrorValue ''key file path is empty''"

definition ErrNoSecretKey :: go_error where
  "ErrNoSecretKey = ErrorValue ''server config does not contain a key''"

definition ErrRequestTooLarge :: go_error where
  "ErrRequestTooLarge = ErrorValue ''request too large to process''"

definition ErrUnrecognizedRequest :: go_error where
  "ErrUnrecognizedRequest = ErrorValue ''received unrecognized request type''"

definition ErrEmptyCommPath :: go_error where
  "ErrEmptyCommPath = ErrorValue ''no commitment file path specified''"

text \<open>A call either returns or panics (an index out of range has no error value).\<close>

datatype 'a outcome = Returned 'a | Panicked

subsection \<open>The server structure\<close>

text \<open>
  \<^verbatim>\<open>type Server struct\<close>. \<^verbatim>\<open>G\<close> and \<^verbatim>\<open>H\<close> are pointers to \<^verbatim>\<open>crypto.Point\<close>, nil until
  \<^verbatim>\<open>main\<close> sets them; the point type itself belongs to package \<^verbatim>\<open>crypto\<close> and is the
  type parameter \<open>'p\<close>.
\<close>

record 'p Server =
  BindAddress :: string
  ListenPort :: int
  MetricsPort :: int
  MaxTokens :: int
  KeyFilePath :: string
  CommFilePath :: string
  keys :: "string list"
  G :: "'p option"
  H :: "'p option"

definition DefaultServer :: "'p Server" where
  "DefaultServer = \<lparr> BindAddress = ''127.0.0.1'', ListenPort = 2416, MetricsPort = 2417,
     MaxTokens = 100, KeyFilePath = [], CommFilePath = [], keys = [], G = None, H = None \<rparr>"

subsection \<open>Requests\<close>

text \<open>
  The two structures of package \<^verbatim>\<open>btd\<close> that \<^verbatim>\<open>handle\<close> decodes into. Only the fields the
  handler reads are fixed by \<^verbatim>\<open>main.go\<close>: \<^verbatim>\<open>wrapped.Request\<close>, \<^verbatim>\<open>wrapped.Host\<close>,
  \<^verbatim>\<open>wrapped.Path\<close> and \<^verbatim>\<open>request.Type\<close>; the rest of the inner request is carried as
  \<open>Contents\<close>.
\<close>

record BlindTokenRequestWrapper =
  Request :: string
  Host :: string
  Path :: string

record BlindTokenRequest =
  Type :: string
  Contents :: "string list"

subsection \<open>The trace\<close>

datatype counter =
    CounterConnections | CounterConnErrors | CounterJsonError
  | CounterIssueTotal | CounterIssueError
  | CounterRedeemTotal | CounterRedeemError
  | CounterUnknownRequestType

datatype 'p event =
    Inc counter  \<comment> \<open>\<^verbatim>\<open>metrics.CounterX.Inc()\<close>\<close>
  | SetReadDeadline nat  \<comment> \<open>milliseconds from now\<close>
  | CallHandleIssue BlindTokenRequest string "'p option" "'p option" int
      \<comment> \<open>\<^verbatim>\<open>btd.HandleIssue(conn, request, key, G, H, maxTokens)\<close>\<close>
  | CallHandleRedeem BlindTokenRequest string string "string list"
      \<comment> \<open>\<^verbatim>\<open>btd.HandleRedeem(conn, request, host, path, keys)\<close>\<close>
  | ConnWrite string  \<comment> \<open>bytes written to the connection\<close>
  | ConnClose
  | LogPrintf string  \<comment> \<open>a line of \<^verbatim>\<open>errLog\<close>\<close>
  | Sleep int  \<comment> \<open>\<^verbatim>\<open>time.Sleep\<close>, nanoseconds\<close>
  | SetKeepAlive
  | Listen string  \<comment> \<open>\<^verbatim>\<open>net.ListenTCP\<close> succeeded on this address\<close>
  | MetricsListen string  \<comment> \<open>\<^verbatim>\<open>metrics.RegisterAndListen\<close> started\<close>

text \<open>The state of the process: the server structure behind the pointer \<^verbatim>\<open>c\<close>, and the trace.\<close>

record 'p proc_state =
  server :: "'p Server"
  trace :: "'p event list"

definition emit :: "'p event \<Rightarrow> 'p proc_state \<Rightarrow> 'p proc_state" where
  "emit e st = st\<lparr> trace := trace st @ [e] \<rparr>"

definition emits :: "'p event list \<Rightarrow> 'p proc_state \<Rightarrow> 'p proc_state" where
  "emits es st = st\<lparr> trace := trace st @ es \<rparr>"

subsection \<open>What the handler calls outside \<^verbatim>\<open>main.go\<close>\<close>

text \<open>
  \<^item> \<open>ISSUE\<close>, \<open>REDEEM\<close>: the constants \<^verbatim>\<open>btd.ISSUE\<close> and \<^verbatim>\<open>btd.REDEEM\<close>;
  \<^item> \<open>unmarshal_wrapper\<close>, \<open>unmarshal_request\<close>: \<^verbatim>\<open>json.Unmarshal\<close> into a
    \<^verbatim>\<open>btd.BlindTokenRequestWrapper\<close> and into a \<^verbatim>\<open>btd.BlindTokenRequest\<close>;
  \<^item> \<open>HandleIssue\<close>, \<open>HandleRedeem\<close>: the two handlers of package \<^verbatim>\<open>btd\<close>. Each gets the
    connection and returns an error or nil; the model returns what the handler wrote to
    the connection, and its error. The handlers get the key material as arguments and are
    functions of them: they do not write through the slices and pointers they are given.
\<close>

record 'p externals =
  ISSUE :: string
  REDEEM :: string
  unmarshal_wrapper :: "string \<Rightarrow> go_error + BlindTokenRequestWrapper"
  unmarshal_request :: "string \<Rightarrow> go_error + BlindTokenRequest"
  HandleIssue :: "BlindTokenRequest \<Rightarrow> string \<Rightarrow> 'p option \<Rightarrow> 'p option \<Rightarrow> int
                   \<Rightarrow> string list \<times> go_error option"
  HandleRedeem :: "BlindTokenRequest \<Rightarrow> string \<Rightarrow> string \<Rightarrow> string list
                   \<Rightarrow> string list \<times> go_error option"

subsection \<open>Reading the request\<close>

text \<open>
  What a connection delivers while \<^verbatim>\<open>handle\<close> reads it: the bytes that arrive, and how the
  stream ends after them: end of file, or an error of \<^verbatim>\<open>conn.Read\<close> (the read deadline
  among them).
\<close>

datatype read_end = EOF | ReadError go_error

record conn_input =
  arrived :: string
  ending :: read_end

definition maxRequestSize :: nat where
  "maxRequestSize = 20 * 1024"

text \<open>
  \<^verbatim>\<open>io.Copy(buf, io.LimitReader(conn, maxRequestSize))\<close>: the limited reader hands over at
  most \<open>maxRequestSize\<close> bytes and then reports end of file itself, without reading the
  connection again; below the limit the copy ends as the connection's stream ends, and end
  of file is not an error of the copy.
\<close>

definition read_request :: "conn_input \<Rightarrow> string \<times> go_error option" where
  "read_request ci =
     (if maxRequestSize \<le> length (arrived ci) then (take maxRequestSize (arrived ci), None)
      else (arrived ci, case ending ci of EOF \<Rightarrow> None | ReadError e \<Rightarrow> Some e))"

text \<open>
  The test of line 82:
  \<^verbatim>\<open>opErr, ok := err.(*net.OpError); ok && opErr.Err.Error() == "i/o timeout" && buf.Len() > 0\<close>.
\<close>

fun deadline_with_data :: "go_error \<Rightarrow> string \<Rightarrow> bool" where
  "deadline_with_data (OpError full inner) buf = (inner = ''i/o timeout'' \<and> 0 < length buf)"
| "deadline_with_data (ErrorValue t) buf = False"

subsection \<open>\<^verbatim>\<open>handle\<close>\<close>

text \<open>The \<^verbatim>\<open>switch request.Type\<close> of lines 104 to 127.\<close>

definition dispatch ::
  "'p externals \<Rightarrow> BlindTokenRequestWrapper \<Rightarrow> BlindTokenRequest \<Rightarrow> 'p proc_state
     \<Rightarrow> 'p proc_state \<times> go_error option outcome" where
  "dispatch ext wrapped request st =
     (if Type request = ISSUE ext then
        (let st1 = emit (Inc CounterIssueTotal) st in
         case keys (server st1) of
           [] \<Rightarrow> (st1, Panicked)
         | k0 # ks \<Rightarrow>
            (let c = server st1;
                 (written, err) = HandleIssue ext request k0 (G c) (H c) (MaxTokens c);
                 st2 = emits (CallHandleIssue request k0 (G c) (H c) (MaxTokens c)
                              # map ConnWrite written) st1
             in case err of
                  Some e \<Rightarrow> (emit (Inc CounterIssueError) st2, Returned (Some e))
                | None \<Rightarrow> (st2, Returned None)))
      else if Type request = REDEEM ext then
        (let st1 = emit (Inc CounterRedeemTotal) st;
             c = server st1;
             (written, err) = HandleRedeem ext request (Host wrapped) (Path wrapped) (keys c);
             st2 = emits (CallHandleRedeem request (Host wrapped) (Path wrapped) (keys c)
                          # map ConnWrite written) st1
         in case err of
              Some e \<Rightarrow>
                (emit (ConnWrite (error_text e)) (emit (Inc CounterRedeemError) st2),
                 Returned (Some e))
            | None \<Rightarrow> (st2, Returned None))
      else
        (emit (Inc CounterUnknownRequestType)
           (emit (LogPrintf (''unrecognized request type '' @ [CHR 0x22] @ Type request
                             @ [CHR 0x22])) st),
         Returned (Some ErrUnrecognizedRequest)))"

text \<open>Lines 90 to 102: the two decoding steps, then the switch.\<close>

definition decode_and_dispatch ::
  "'p externals \<Rightarrow> string \<Rightarrow> 'p proc_state \<Rightarrow> 'p proc_state \<times> go_error option outcome" where
  "decode_and_dispatch ext buf st =
     (case unmarshal_wrapper ext buf of
        Inl e \<Rightarrow> (emit (Inc CounterJsonError) st, Returned (Some e))
      | Inr wrapped \<Rightarrow>
         (case unmarshal_request ext (Request wrapped) of
            Inl e \<Rightarrow> (emit (Inc CounterJsonError) st, Returned (Some e))
          | Inr request \<Rightarrow> dispatch ext wrapped request st))"

definition handle ::
  "'p externals \<Rightarrow> conn_input \<Rightarrow> 'p proc_state \<Rightarrow> 'p proc_state \<times> go_error option outcome" where
  "handle ext ci st =
     (let st1 = emit (SetReadDeadline 100) (emit (Inc CounterConnections) st);
          (buf, err) = read_request ci
      in case err of
           Some e \<Rightarrow>
             (if deadline_with_data e buf then decode_and_dispatch ext buf st1
              else (emit (Inc CounterConnErrors) st1, Returned (Some e)))
         | None \<Rightarrow> decode_and_dispatch ext buf st1)"

subsection \<open>\<^verbatim>\<open>loadConfigFile\<close>\<close>

text \<open>
  What \<^verbatim>\<open>main\<close> and its callees get from outside the file:
  \<^item> \<open>ReadFile\<close>: \<^verbatim>\<open>ioutil.ReadFile\<close>;
  \<^item> \<open>json_checkValid\<close>: the well-formedness check that \<^verbatim>\<open>json.Unmarshal\<close> runs first
    (nil for well-formed JSON text, a syntax error otherwise);
  \<^item> \<open>ParseKeyFile\<close>, \<open>ParseCommitmentFile\<close>, \<open>RetrieveCommPoints\<close>: the three functions of
    package \<^verbatim>\<open>crypto\<close> (of \<^verbatim>\<open>ParseKeyFile\<close> the code drops the list of curves);
  \<^item> \<open>ResolveTCPAddr\<close>, \<open>ListenTCP\<close>: nil, or the error of the call, for an address;
  \<^item> \<open>accepts\<close>: what the calls of \<^verbatim>\<open>listener.AcceptTCP\<close> return, one after the other.
\<close>

datatype accept_result =
    Accepted conn_input
  | AcceptFailed go_error bool
      \<comment> \<open>the error, and whether it is a \<^verbatim>\<open>net.Error\<close> with \<^verbatim>\<open>Temporary()\<close> true\<close>

record 'p system =
  ReadFile :: "string \<Rightarrow> go_error + string"
  json_checkValid :: "string \<Rightarrow> go_error option"
  ParseKeyFile :: "string \<Rightarrow> go_error + string list"
  ParseCommitmentFile :: "string \<Rightarrow> go_error + string \<times> string"
  RetrieveCommPoints :: "string \<Rightarrow> string \<Rightarrow> string \<Rightarrow> go_error + 'p \<times> 'p"
  ResolveTCPAddr :: "string \<Rightarrow> go_error option"
  ListenTCP :: "string \<Rightarrow> go_error option"
  accepts :: "accept_result list"

text \<open>
  Line 62 is \<^verbatim>\<open>json.Unmarshal(data, conf)\<close> with \<^verbatim>\<open>conf\<close> of type \<^verbatim>\<open>Server\<close>, a structure
  and not a pointer to one. \<^verbatim>\<open>json.Unmarshal\<close> first checks that the text is well-formed
  and returns the syntax error if it is not; then, its target being no pointer, it returns
  an \<^verbatim>\<open>InvalidUnmarshalError\<close> and stores nothing.
\<close>

definition Unmarshal_into_Server_value :: "'p system \<Rightarrow> string \<Rightarrow> go_error option" where
  "Unmarshal_into_Server_value sys data =
     (case json_checkValid sys data of
        Some e \<Rightarrow> Some e
      | None \<Rightarrow> Some (ErrorValue ''json: Unmarshal(non-pointer main.Server)''))"

definition loadConfigFile :: "'p system \<Rightarrow> string \<Rightarrow> 'p Server \<times> go_error option" where
  "loadConfigFile sys filePath =
     (let conf = DefaultServer in
      case ReadFile sys filePath of
        Inl e \<Rightarrow> (conf, Some e)
      | Inr data \<Rightarrow>
         (case Unmarshal_into_Server_value sys data of
            Some e \<Rightarrow> (conf, Some e)
          | None \<Rightarrow> (conf, None)))"

subsection \<open>\<^verbatim>\<open>loadKeys\<close>\<close>

definition loadKeys :: "'p system \<Rightarrow> 'p proc_state \<Rightarrow> 'p proc_state \<times> go_error option" where
  "loadKeys sys st =
     (let c = server st in
      if KeyFilePath c = [] then (st, Some ErrEmptyKeyPath)
      else if CommFilePath c = [] then (st, Some ErrEmptyCommPath)
      else case ParseKeyFile sys (KeyFilePath c) of
             Inl e \<Rightarrow> (st, Some e)
           | Inr ks \<Rightarrow> (st\<lparr> server := c\<lparr> keys := ks \<rparr> \<rparr>, None))"

subsection \<open>\<^verbatim>\<open>ListenAndServe\<close>\<close>

text \<open>\<^verbatim>\<open>fmt.Sprintf("%s:%d", ...)\<close>: the decimal text of an \<^verbatim>\<open>int\<close>.\<close>

fun decimal :: "nat \<Rightarrow> string" where
  "decimal n =
     (if n < 10 then [char_of (48 + n)] else decimal (n div 10) @ [char_of (48 + n mod 10)])"

declare decimal.simps [simp del]

definition Sprintf_d :: "int \<Rightarrow> string" where
  "Sprintf_d i = (if i < 0 then CHR ''-'' # decimal (nat (- i)) else decimal (nat i))"

definition Sprintf_addr :: "string \<Rightarrow> int \<Rightarrow> string" where
  "Sprintf_addr host port = host @ '':'' @ Sprintf_d port"

definition Version :: string where
  "Version = ''dev''"

text \<open>Durations are nanoseconds, as \<^verbatim>\<open>time.Duration\<close> is.\<close>

definition Millisecond :: int where
  "Millisecond = 1000000"

definition maxBackoffDelay :: int where
  "maxBackoffDelay = 1000 * Millisecond"

datatype serve_outcome =
    Listening  \<comment> \<open>the loop is in \<^verbatim>\<open>AcceptTCP\<close>, waiting for the next connection\<close>
  | Crashed  \<comment> \<open>a goroutine panicked, which ends the process\<close>
  | ServeReturned go_error  \<comment> \<open>\<^verbatim>\<open>ListenAndServe\<close> returned this error\<close>

text \<open>
  The \<^verbatim>\<open>for\<close> loop of lines 185 to 211, run on the results of the calls of \<^verbatim>\<open>AcceptTCP\<close>
  made so far; the loop has no \<^verbatim>\<open>break\<close> and no \<^verbatim>\<open>return\<close>, so when these results are
  used up it is waiting in \<^verbatim>\<open>AcceptTCP\<close>. The goroutine started for a connection (handle,
  send the result to the error channel, close) and the goroutine that logs what arrives on
  the error channel are run here at the point where the loop starts the former: the
  interleaving of goroutines is not modelled.
\<close>

fun serve_loop ::
  "'p externals \<Rightarrow> int \<Rightarrow> accept_result list \<Rightarrow> 'p proc_state \<Rightarrow> 'p proc_state \<times> serve_outcome"
  where
  "serve_loop ext backoffDelay [] st = (st, Listening)"
| "serve_loop ext backoffDelay (AcceptFailed e temporary # rest) st =
     (let d1 = (if backoffDelay > maxBackoffDelay then maxBackoffDelay else backoffDelay);
          st1 = (if temporary then emit (Sleep d1) st else st);
          d2 = (if temporary then 2 * d1 else backoffDelay);
          st2 = emit (LogPrintf (error_text e)) (emit (Inc CounterConnErrors) st1)
      in serve_loop ext d2 rest st2)"
| "serve_loop ext backoffDelay (Accepted ci # rest) st =
     (case handle ext ci (emit SetKeepAlive st) of
        (st1, Panicked) \<Rightarrow> (st1, Crashed)
      | (st1, Returned None) \<Rightarrow> serve_loop ext (1 * Millisecond) rest (emit ConnClose st1)
      | (st1, Returned (Some e)) \<Rightarrow>
          serve_loop ext (1 * Millisecond) rest
            (emit ConnClose (emit (LogPrintf (error_text e)) st1)))"

definition ListenAndServe ::
  "'p externals \<Rightarrow> 'p system \<Rightarrow> 'p proc_state \<Rightarrow> 'p proc_state \<times> serve_outcome" where
  "ListenAndServe ext sys st =
     (let c = server st in
      if length (keys c) = 0 then (st, ServeReturned ErrNoSecretKey)
      else
       (let addr = Sprintf_addr (BindAddress c) (ListenPort c) in
        case ResolveTCPAddr sys addr of
          Some e \<Rightarrow> (st, ServeReturned e)
        | None \<Rightarrow>
           (case ListenTCP sys addr of
              Some e \<Rightarrow> (st, ServeReturned e)
            | None \<Rightarrow>
               (let st1 = emits [Listen addr,
                                 LogPrintf (''blindsigmgmt starting, version: '' @ Version),
                                 LogPrintf (''listening on '' @ addr),
                                 MetricsListen (Sprintf_addr (BindAddress c) (MetricsPort c))] st
                in serve_loop ext (1 * Millisecond) (accepts sys) st1))))"

subsection \<open>\<^verbatim>\<open>main\<close>\<close>

text \<open>
  The values of the command-line flags after \<^verbatim>\<open>flag.Parse()\<close>: what the command line gives,
  and the default of the flag where it gives nothing.
\<close>

record flags =
  flag_config :: string
  flag_addr :: string
  flag_key :: string
  flag_comm :: string
  flag_p :: int
  flag_m :: int
  flag_maxtokens :: int

definition default_flags :: flags where
  "default_flags = \<lparr> flag_config = [], flag_addr = ''127.0.0.1'', flag_key = [], flag_comm = [],
     flag_p = 2416, flag_m = 2417, flag_maxtokens = 100 \<rparr>"

datatype exit =
    Fatal go_error  \<comment> \<open>\<^verbatim>\<open>errLog.Fatal(err)\<close>: the error is logged and the process exits with status 1\<close>
  | Usage  \<comment> \<open>\<^verbatim>\<open>flag.Usage()\<close>, then \<^verbatim>\<open>main\<close> returns\<close>
  | MainPanicked  \<comment> \<open>the process ends in a panic\<close>
  | Serving  \<comment> \<open>the process is in the accept loop\<close>

definition fatal :: "go_error \<Rightarrow> 'p proc_state \<Rightarrow> 'p proc_state \<times> exit" where
  "fatal e st = (emit (LogPrintf (error_text e)) st, Fatal e)"

text \<open>Lines 241 to 266: from \<^verbatim>\<open>srv.loadKeys()\<close> on.\<close>

definition start ::
  "'p externals \<Rightarrow> 'p system \<Rightarrow> 'p proc_state \<Rightarrow> 'p proc_state \<times> exit" where
  "start ext sys st0 =
     (case loadKeys sys st0 of
        (st, Some e) \<Rightarrow> fatal e st
      | (st, None) \<Rightarrow>
         (case ParseCommitmentFile sys (CommFilePath (server st)) of
            Inl e \<Rightarrow> fatal e st
          | Inr (GBytes, HBytes) \<Rightarrow>
             (case keys (server st) of
                [] \<Rightarrow> (st, MainPanicked)
              | k0 # ks \<Rightarrow>
                 (case RetrieveCommPoints sys GBytes HBytes k0 of
                    Inl e \<Rightarrow> fatal e st
                  | Inr (g, h) \<Rightarrow>
                     (case ListenAndServe ext sys
                             (st\<lparr> server := (server st)\<lparr> G := Some g, H := Some h \<rparr> \<rparr>) of
                        (st1, ServeReturned e) \<Rightarrow> fatal e st1
                      | (st1, Crashed) \<Rightarrow> (st1, MainPanicked)
                      | (st1, Listening) \<Rightarrow> (st1, Serving))))))"

definition main :: "'p externals \<Rightarrow> 'p system \<Rightarrow> flags \<Rightarrow> 'p proc_state \<times> exit" where
  "main ext sys fl =
     (let configFile = flag_config fl;
          srv0 = DefaultServer\<lparr> BindAddress := flag_addr fl, KeyFilePath := flag_key fl,
                   CommFilePath := flag_comm fl, ListenPort := flag_p fl,
                   MetricsPort := flag_m fl, MaxTokens := flag_maxtokens fl \<rparr>;
          (srv, err) = (if configFile \<noteq> [] then loadConfigFile sys configFile
                        else (srv0, None))
      in case err of
           Some e \<Rightarrow> fatal e \<lparr> server = srv, trace = [] \<rparr>
         | None \<Rightarrow>
            (if configFile = [] \<and> (KeyFilePath srv = [] \<or> CommFilePath srv = [])
             then (\<lparr> server = srv, trace = [] \<rparr>, Usage)
             else start ext sys \<lparr> server = srv, trace = [] \<rparr>))"

subsection \<open>The commitment check\<close>

text \<open>
  Modelled from the spec: the error \<^verbatim>\<open>CommitmentMismatch\<close> of sections 4.4 and 7, with
  which startup is aborted when the commitment does not match the key. Package \<^verbatim>\<open>crypto\<close>,
  which would return it, is not part of \<^verbatim>\<open>main.go\<close>.
\<close>

definition CommitmentMismatch :: go_error where
  "CommitmentMismatch = ErrorValue ''CommitmentMismatch''"

text \<open>
  Modelled from the spec: \<^verbatim>\<open>crypto.RetrieveCommPoints\<close>, which \<^verbatim>\<open>main\<close> calls on line 255
  and which is not part of \<^verbatim>\<open>main.go\<close>. Section 4.4 of the specification: given the
  decoded public commitment points \<open>(G, H)\<close> and the primary scalar \<open>k\<^sub>0\<close>, it computes
  \<open>k\<^sub>0\<cdot>G\<close> and compares it to \<open>H\<close>; on a mismatch startup is aborted with
  \<^verbatim>\<open>CommitmentMismatch\<close>. Decoding a point and multiplying it by a scalar belong to the
  group arithmetic provider and are parameters.
\<close>

definition CommitmentCheck ::
  "(string \<Rightarrow> go_error + 'p) \<Rightarrow> (string \<Rightarrow> 'p \<Rightarrow> 'p) \<Rightarrow> string \<Rightarrow> string \<Rightarrow> string
     \<Rightarrow> go_error + 'p \<times> 'p" where
  "CommitmentCheck decode_point scalar_mult GBytes HBytes k0 =
     (case decode_point GBytes of
        Inl e \<Rightarrow> Inl e
      | Inr g \<Rightarrow>
         (case decode_point HBytes of
            Inl e \<Rightarrow> Inl e
          | Inr h \<Rightarrow> if scalar_mult k0 g = h then Inr (g, h) else Inl CommitmentMismatch))"

subsection \<open>Reading a trace\<close>

text \<open>What one call of \<^verbatim>\<open>handle\<close> does, for a server structure \<open>srv\<close>.\<close>

definition handle_events :: "'p externals \<Rightarrow> conn_input \<Rightarrow> 'p Server \<Rightarrow> 'p event list" where
  "handle_events ext ci srv = trace (fst (handle ext ci \<lparr> server = srv, trace = [] \<rparr>))"

definition handle_result ::
  "'p externals \<Rightarrow> conn_input \<Rightarrow> 'p Server \<Rightarrow> go_error option outcome" where
  "handle_result ext ci srv = snd (handle ext ci \<lparr> server = srv, trace = [] \<rparr>)"

text \<open>
  The envelope and the inner request that \<^verbatim>\<open>handle\<close> has in \<^verbatim>\<open>wrapped\<close> and \<^verbatim>\<open>request\<close>
  when it reaches the switch of line 104, if it reaches it.
\<close>

definition received ::
  "'p externals \<Rightarrow> conn_input \<Rightarrow> (BlindTokenRequestWrapper \<times> BlindTokenRequest) option" where
  "received ext ci =
     (let (buf, err) = read_request ci in
      if (case err of None \<Rightarrow> False | Some e \<Rightarrow> \<not> deadline_with_data e buf) then None
      else case unmarshal_wrapper ext buf of
             Inl e \<Rightarrow> None
           | Inr wrapped \<Rightarrow>
              (case unmarshal_request ext (Request wrapped) of
                 Inl e \<Rightarrow> None
               | Inr request \<Rightarrow> Some (wrapped, request)))"

fun redeem_bindings :: "'p event list \<Rightarrow> (string \<times> string) list" where
  "redeem_bindings [] = []"
| "redeem_bindings (CallHandleRedeem rq host path ks # es) = (host, path) # redeem_bindings es"
| "redeem_bindings (e # es) = redeem_bindings es"

fun issue_keys :: "'p event list \<Rightarrow> string list" where
  "issue_keys [] = []"
| "issue_keys (CallHandleIssue rq k g h n # es) = k # issue_keys es"
| "issue_keys (e # es) = issue_keys es"

fun redeem_keys :: "'p event list \<Rightarrow> string list list" where
  "redeem_keys [] = []"
| "redeem_keys (CallHandleRedeem rq host path ks # es) = ks # redeem_keys es"
| "redeem_keys (e # es) = redeem_keys es"

fun conn_writes :: "'p event list \<Rightarrow> string list" where
  "conn_writes [] = []"
| "conn_writes (ConnWrite w # es) = w # conn_writes es"
| "conn_writes (e # es) = conn_writes es"




text \<open>
  The server structure holds a primary key \<open>k\<^sub>0\<close> and points \<open>G\<close>, \<open>H\<close> with
  \<open>H = k\<^sub>0\<cdot>G\<close>.
\<close>

definition committed :: "(string \<Rightarrow> 'p \<Rightarrow> 'p) \<Rightarrow> 'p Server \<Rightarrow> bool" where
  "committed scalar_mult c =
     (case keys c of
        [] \<Rightarrow> False
      | k0 # ks \<Rightarrow> (case G c of None \<Rightarrow> False | Some g \<Rightarrow> H c = Some (scalar_mult k0 g)))"

subsection \<open>A concrete instance\<close>

text \<open>
  An instance of everything outside \<^verbatim>\<open>main.go\<close>, to run the model on. Points are the
  elements of the group of order 11 of section 8 of the specification, \<open>g\<^sup>a\<close> written as
  its exponent \<open>a\<close>; a scalar is the big-endian number of its bytes.
\<close>

definition scalar_of :: "string \<Rightarrow> nat" where
  "scalar_of bs = foldl (\<lambda>a c. a * 256 + of_char c) 0 bs"

definition ex_scalar_mult :: "string \<Rightarrow> nat \<Rightarrow> nat" where
  "ex_scalar_mult k a = (scalar_of k * a) mod 11"

definition ex_decode_point :: "string \<Rightarrow> go_error + nat" where
  "ex_decode_point bs =
     (if length bs = 1 \<and> 0 < scalar_of bs \<and> scalar_of bs < 11 then Inr (scalar_of bs)
      else Inl (ErrorValue ''invalid point''))"

text \<open>
  The JSON texts of the examples. An envelope has the fields \<^verbatim>\<open>bl_sig_req\<close> (the inner
  request, in base64 as \<^verbatim>\<open>encoding/json\<close> writes a byte slice), \<^verbatim>\<open>host\<close> and \<^verbatim>\<open>path\<close>; an
  inner request has \<^verbatim>\<open>type\<close> and \<^verbatim>\<open>contents\<close>.
\<close>

definition inner_redeem :: string where
  \<open>inner_redeem = ''{"type":"Redeem","contents":["dG9rZW4=","dGFn"]}''\<close>

definition inner_issue :: string where
  \<open>inner_issue = ''{"type":"Issue","contents":["BAEC"]}''\<close>

definition inner_revoke :: string where
  \<open>inner_revoke = ''{"type":"Revoke","contents":[]}''\<close>

definition body_redeem_a :: string where
  \<open>body_redeem_a = ''{"bl_sig_req":"eyJ0eXBlIjoiUmVkZWVtIiwiY29udGVudHMiOlsiZEc5clpXND0iLCJkR0ZuIl19","host":"a.example","path":"/"}''\<close>

definition body_redeem_b :: string where
  \<open>body_redeem_b = ''{"bl_sig_req":"eyJ0eXBlIjoiUmVkZWVtIiwiY29udGVudHMiOlsiZEc5clpXND0iLCJkR0ZuIl19","host":"b.example","path":"/admin"}''\<close>

definition body_issue :: string where
  \<open>body_issue = ''{"bl_sig_req":"eyJ0eXBlIjoiSXNzdWUiLCJjb250ZW50cyI6WyJCQUVDIl19","host":"a.example","path":"/"}''\<close>

definition body_revoke :: string where
  \<open>body_revoke = ''{"bl_sig_req":"eyJ0eXBlIjoiUmV2b2tlIiwiY29udGVudHMiOltdfQ==","host":"a.example","path":"/"}''\<close>

text \<open>
  \<^verbatim>\<open>json.Unmarshal\<close> skips the white space around a JSON value. The two decoders of the
  instance give, for the texts above, what \<^verbatim>\<open>json.Unmarshal\<close> gives, and an error for any
  other text.
\<close>

definition json_space :: "char \<Rightarrow> bool" where
  "json_space c = (c = CHR '' '' \<or> c = CHR 0x09 \<or> c = CHR 0x0A \<or> c = CHR 0x0D)"

definition json_trim :: "string \<Rightarrow> string" where
  "json_trim s = rev (dropWhile json_space (rev (dropWhile json_space s)))"

definition ex_unmarshal_wrapper :: "string \<Rightarrow> go_error + BlindTokenRequestWrapper" where
  "ex_unmarshal_wrapper s =
     (let t = json_trim s in
      if t = body_redeem_a then Inr \<lparr> Request = inner_redeem, Host = ''a.example'', Path = ''/'' \<rparr>
      else if t = body_redeem_b
        then Inr \<lparr> Request = inner_redeem, Host = ''b.example'', Path = ''/admin'' \<rparr>
      else if t = body_issue then Inr \<lparr> Request = inner_issue, Host = ''a.example'', Path = ''/'' \<rparr>
      else if t = body_revoke
        then Inr \<lparr> Request = inner_revoke, Host = ''a.example'', Path = ''/'' \<rparr>
      else Inl (ErrorValue ''unexpected end of JSON input''))"

definition ex_unmarshal_request :: "string \<Rightarrow> go_error + BlindTokenRequest" where
  "ex_unmarshal_request s =
     (let t = json_trim s in
      if t = inner_redeem then Inr \<lparr> Type = ''Redeem'', Contents = [''token'', ''tag''] \<rparr>
      else if t = inner_issue
        then Inr \<lparr> Type = ''Issue'', Contents = [[CHR 0x04, CHR 0x01, CHR 0x02]] \<rparr>
      else if t = inner_revoke then Inr \<lparr> Type = ''Revoke'', Contents = [] \<rparr>
      else Inl (ErrorValue ''unexpected end of JSON input''))"

text \<open>
  Handlers for the instance: issuance answers with one line and fails on a batch larger
  than \<open>maxTokens\<close>; redemption succeeds for the binding \<open>(a.example, /)\<close> when there is a
  key, and fails otherwise.
\<close>

definition ex_HandleIssue ::
  "BlindTokenRequest \<Rightarrow> string \<Rightarrow> nat option \<Rightarrow> nat option \<Rightarrow> int \<Rightarrow> string list \<times> go_error option"
  where
  "ex_HandleIssue rq k g h maxTokens =
     (if int (length (Contents rq)) > maxTokens then ([], Some (ErrorValue ''too many tokens''))
      else ([''signed''], None))"

definition ex_HandleRedeem ::
  "BlindTokenRequest \<Rightarrow> string \<Rightarrow> string \<Rightarrow> string list \<Rightarrow> string list \<times> go_error option" where
  "ex_HandleRedeem rq host path ks =
     (if host = ''a.example'' \<and> path = ''/'' \<and> ks \<noteq> [] then ([''success''], None)
      else ([], Some (ErrorValue ''verification failed'')))"

definition ex_ext :: "nat externals" where
  "ex_ext = \<lparr> ISSUE = ''Issue'', REDEEM = ''Redeem'',
     unmarshal_wrapper = ex_unmarshal_wrapper, unmarshal_request = ex_unmarshal_request,
     HandleIssue = ex_HandleIssue, HandleRedeem = ex_HandleRedeem \<rparr>"

text \<open>A server with the two keys 7 and 3, the generator \<open>g\<close> and the commitment \<open>g\<^sup>7\<close>.\<close>

definition ex_srv :: "nat Server" where
  "ex_srv = DefaultServer\<lparr> KeyFilePath := ''keys.pem'', CommFilePath := ''comm.json'',
     keys := [[CHR 0x07], [CHR 0x03]], G := Some 1, H := Some 7 \<rparr>"

definition ex_st :: "nat proc_state" where
  "ex_st = \<lparr> server = ex_srv, trace = [] \<rparr>"

definition timeout_error :: go_error where
  "timeout_error = OpError ''read tcp 127.0.0.1:2416: i/o timeout'' ''i/o timeout''"

text \<open>
  Files: a key file with the keys 7 and 3, a commitment file with \<open>(g, g\<^sup>7)\<close>, one with
  \<open>(g, g\<^sup>8)\<close>, and a configuration file. Four connections arrive: an envelope that is
  not JSON, a request of an unknown type, a redemption for another binding, and a
  redemption that succeeds.
\<close>

definition config_text :: string where
  \<open>config_text = ''{"listen_port":9000,"key_file_path":"keys.pem","comm_file_path":"comm.json"}''\<close>

definition no_such_file :: go_error where
  "no_such_file = ErrorValue ''no such file or directory''"

definition ex_accepts :: "accept_result list" where
  "ex_accepts =
     [Accepted \<lparr> arrived = ''hello'', ending = EOF \<rparr>,
      Accepted \<lparr> arrived = body_revoke, ending = EOF \<rparr>,
      Accepted \<lparr> arrived = body_redeem_b, ending = EOF \<rparr>,
      Accepted \<lparr> arrived = body_redeem_a, ending = EOF \<rparr>]"

definition ex_sys :: "nat system" where
  "ex_sys = \<lparr>
     ReadFile = (\<lambda>p. if p = ''conf.json'' then Inr config_text else Inl no_such_file),
     json_checkValid = (\<lambda>d. if d = config_text then None
                             else Some (ErrorValue ''invalid character'')),
     ParseKeyFile = (\<lambda>p. if p = ''keys.pem'' then Inr [[CHR 0x07], [CHR 0x03]]
                          else Inl no_such_file),
     ParseCommitmentFile = (\<lambda>p. if p = ''comm.json'' then Inr ([CHR 0x01], [CHR 0x07])
                                 else if p = ''other.json'' then Inr ([CHR 0x01], [CHR 0x08])
                                 else Inl no_such_file),
     RetrieveCommPoints = CommitmentCheck ex_decode_point ex_scalar_mult,
     ResolveTCPAddr = (\<lambda>a. None),
     ListenTCP = (\<lambda>a. None),
     accepts = ex_accepts \<rparr>"

definition ex_flags :: flags where
  "ex_flags = default_flags\<lparr> flag_key := ''keys.pem'', flag_comm := ''comm.json'' \<rparr>"

section \<open>Properties\<close>

subsection \<open>The trace and the server structure\<close>

lemma server_emit [simp]: "server (emit e st) = server st"
  by (simp add: emit_def)

lemma server_emits [simp]: "server (emits es st) = server st"
  by (simp add: emits_def)

lemma trace_emit [simp]: "trace (emit e st) = trace st @ [e]"
  by (simp add: emit_def)

lemma trace_emits [simp]: "trace (emits es st) = trace st @ es"
  by (simp add: emits_def)

lemma dispatch_server: "server (fst (dispatch ext w rq st)) = server st"
  by (simp add: dispatch_def Let_def split: list.splits prod.splits option.splits)

lemma decode_and_dispatch_server: "server (fst (decode_and_dispatch ext buf st)) = server st"
  by (simp add: decode_and_dispatch_def dispatch_server split: sum.splits)

lemma handle_server: "server (fst (handle ext ci st)) = server st"
  by (simp add: handle_def Let_def decode_and_dispatch_server split: prod.splits option.splits)

text \<open>What \<^verbatim>\<open>handle\<close> does and returns does not depend on what happened before.\<close>

lemma handle_trace_independent:
  "handle ext ci st =
     (st\<lparr> trace := trace st @ handle_events ext ci (server st) \<rparr>,
      handle_result ext ci (server st))"
  by (simp add: handle_def handle_events_def handle_result_def Let_def decode_and_dispatch_def
        dispatch_def emit_def emits_def
        split: prod.splits option.splits sum.splits list.splits)

lemma handle_received:
  "received ext ci = Some (w, rq) \<Longrightarrow>
   handle ext ci st =
     dispatch ext w rq (emit (SetReadDeadline 100) (emit (Inc CounterConnections) st))"
  by (auto simp: received_def handle_def decode_and_dispatch_def Let_def
           split: prod.splits option.splits sum.splits if_splits)


lemma handle_returns:
  "keys (server st) \<noteq> [] \<Longrightarrow> \<exists>r. snd (handle ext ci st) = Returned r"
  by (auto simp: handle_def Let_def decode_and_dispatch_def dispatch_def
        split: prod.splits option.splits sum.splits list.splits)



lemma redeem_bindings_append [simp]:
  "redeem_bindings (xs @ ys) = redeem_bindings xs @ redeem_bindings ys"
  by (induction xs rule: redeem_bindings.induct) simp_all

lemma redeem_bindings_writes [simp]: "redeem_bindings (map ConnWrite ws) = []"
  by (induction ws) simp_all

lemma issue_keys_append [simp]: "issue_keys (xs @ ys) = issue_keys xs @ issue_keys ys"
  by (induction xs rule: issue_keys.induct) simp_all

lemma issue_keys_writes [simp]: "issue_keys (map ConnWrite ws) = []"
  by (induction ws) simp_all

lemma redeem_keys_append [simp]: "redeem_keys (xs @ ys) = redeem_keys xs @ redeem_keys ys"
  by (induction xs rule: redeem_keys.induct) simp_all

lemma redeem_keys_writes [simp]: "redeem_keys (map ConnWrite ws) = []"
  by (induction ws) simp_all

lemma conn_writes_append [simp]: "conn_writes (xs @ ys) = conn_writes xs @ conn_writes ys"
  by (induction xs rule: conn_writes.induct) simp_all

lemma conn_writes_writes [simp]: "conn_writes (map ConnWrite ws) = ws"
  by (induction ws) simp_all

subsection \<open>The instance\<close>

lemma json_trim_id:
  assumes "s \<noteq> []" and "\<not> json_space (hd s)" and "\<not> json_space (last s)"
  shows "json_trim s = s"
proof -
  have 1: "dropWhile json_space s = s"
    using assms(1,2) by (cases s) simp_all
  have 2: "dropWhile json_space (rev s) = rev s"
    using assms(1,3) by (cases "rev s") (simp_all add: last_rev [symmetric] del: last_rev)
  show ?thesis by (simp add: json_trim_def 1 2)
qed

lemma json_trim_trailing:
  assumes "s \<noteq> []" and "\<not> json_space (hd s)" and "\<not> json_space (last s)"
  shows "json_trim (s @ replicate k (CHR '' '')) = s"
proof -
  have 1: "dropWhile json_space (s @ replicate k (CHR '' '')) = s @ replicate k (CHR '' '')"
    using assms(1,2) by (cases s) simp_all
  have 2: "dropWhile json_space (rev s) = rev s"
    using assms(1,3) by (cases "rev s") (simp_all add: last_rev [symmetric] del: last_rev)
  have 3: "dropWhile json_space (replicate k (CHR '' '') @ rev s) = dropWhile json_space (rev s)"
    by (rule dropWhile_append2) (simp add: json_space_def)
  show ?thesis by (simp add: json_trim_def 1 2 3)
qed

lemma trim_bodies:
  "json_trim body_redeem_a = body_redeem_a"
  "json_trim body_redeem_b = body_redeem_b"
  "json_trim body_issue = body_issue"
  "json_trim body_revoke = body_revoke"
  "json_trim inner_redeem = inner_redeem"
  "json_trim inner_issue = inner_issue"
  "json_trim inner_revoke = inner_revoke"
  "json_trim ''hello'' = ''hello''"
  by (rule json_trim_id; simp add: body_redeem_a_def body_redeem_b_def body_issue_def
        body_revoke_def inner_redeem_def inner_issue_def inner_revoke_def json_space_def)+

lemma trim_padded_redeem_a:
  "json_trim (body_redeem_a @ replicate k (CHR '' '')) = body_redeem_a"
  by (rule json_trim_trailing) (simp_all add: body_redeem_a_def json_space_def)

lemma bodies_differ:
  "body_redeem_b \<noteq> body_redeem_a"
  "body_issue \<noteq> body_redeem_a" "body_issue \<noteq> body_redeem_b"
  "body_revoke \<noteq> body_redeem_a" "body_revoke \<noteq> body_redeem_b" "body_revoke \<noteq> body_issue"
  "inner_issue \<noteq> inner_redeem" "inner_revoke \<noteq> inner_redeem" "inner_revoke \<noteq> inner_issue"
  "''hello'' \<noteq> body_redeem_a" "''hello'' \<noteq> body_redeem_b" "''hello'' \<noteq> body_issue"
  "''hello'' \<noteq> body_revoke"
  by (simp_all add: body_redeem_a_def body_redeem_b_def body_issue_def
        body_revoke_def inner_redeem_def inner_issue_def inner_revoke_def)

lemma bodies_length:
  "length body_redeem_a = 111" "length body_redeem_b = 116" "length body_issue = 95"
  "length body_revoke = 91"
  by (simp_all add: body_redeem_a_def body_redeem_b_def body_issue_def body_revoke_def)

lemma ex_wrappers:
  "ex_unmarshal_wrapper body_redeem_a =
     Inr \<lparr> Request = inner_redeem, Host = ''a.example'', Path = ''/'' \<rparr>"
  "ex_unmarshal_wrapper body_redeem_b =
     Inr \<lparr> Request = inner_redeem, Host = ''b.example'', Path = ''/admin'' \<rparr>"
  "ex_unmarshal_wrapper body_issue =
     Inr \<lparr> Request = inner_issue, Host = ''a.example'', Path = ''/'' \<rparr>"
  "ex_unmarshal_wrapper body_revoke =
     Inr \<lparr> Request = inner_revoke, Host = ''a.example'', Path = ''/'' \<rparr>"
  "ex_unmarshal_wrapper ''hello'' = Inl (ErrorValue ''unexpected end of JSON input'')"
  by (simp_all add: ex_unmarshal_wrapper_def trim_bodies bodies_differ)

lemma ex_requests:
  "ex_unmarshal_request inner_redeem =
     Inr \<lparr> Type = ''Redeem'', Contents = [''token'', ''tag''] \<rparr>"
  "ex_unmarshal_request inner_issue =
     Inr \<lparr> Type = ''Issue'', Contents = [[CHR 0x04, CHR 0x01, CHR 0x02]] \<rparr>"
  "ex_unmarshal_request inner_revoke = Inr \<lparr> Type = ''Revoke'', Contents = [] \<rparr>"
  by (simp_all add: ex_unmarshal_request_def trim_bodies bodies_differ)

lemma read_request_short:
  "length (arrived ci) < maxRequestSize \<Longrightarrow>
   read_request ci = (arrived ci, case ending ci of EOF \<Rightarrow> None | ReadError e \<Rightarrow> Some e)"
  by (simp add: read_request_def)

lemma ex_received:
  "received ex_ext \<lparr> arrived = body_redeem_a, ending = EOF \<rparr> =
     Some (\<lparr> Request = inner_redeem, Host = ''a.example'', Path = ''/'' \<rparr>,
           \<lparr> Type = ''Redeem'', Contents = [''token'', ''tag''] \<rparr>)"
  "received ex_ext \<lparr> arrived = body_redeem_b, ending = EOF \<rparr> =
     Some (\<lparr> Request = inner_redeem, Host = ''b.example'', Path = ''/admin'' \<rparr>,
           \<lparr> Type = ''Redeem'', Contents = [''token'', ''tag''] \<rparr>)"
  "received ex_ext \<lparr> arrived = body_issue, ending = EOF \<rparr> =
     Some (\<lparr> Request = inner_issue, Host = ''a.example'', Path = ''/'' \<rparr>,
           \<lparr> Type = ''Issue'', Contents = [[CHR 0x04, CHR 0x01, CHR 0x02]] \<rparr>)"
  "received ex_ext \<lparr> arrived = body_revoke, ending = EOF \<rparr> =
     Some (\<lparr> Request = inner_revoke, Host = ''a.example'', Path = ''/'' \<rparr>,
           \<lparr> Type = ''Revoke'', Contents = [] \<rparr>)"
  by (simp_all add: received_def read_request_short bodies_length maxRequestSize_def ex_ext_def
        ex_wrappers ex_requests)

lemma ex_received_hello: "received ex_ext \<lparr> arrived = ''hello'', ending = EOF \<rparr> = None"
  by (simp add: received_def read_request_short maxRequestSize_def ex_ext_def ex_wrappers)

lemma ex_handle_redeem_a:
  "handle ex_ext \<lparr> arrived = body_redeem_a, ending = EOF \<rparr> \<lparr> server = ex_srv, trace = tr \<rparr> =
     (\<lparr> server = ex_srv, trace = tr @
         [Inc CounterConnections, SetReadDeadline 100, Inc CounterRedeemTotal,
          CallHandleRedeem \<lparr> Type = ''Redeem'', Contents = [''token'', ''tag''] \<rparr>
            ''a.example'' ''/'' [[CHR 0x07], [CHR 0x03]],
          ConnWrite ''success''] \<rparr>,
      Returned None)"
  by (simp add: handle_received [OF ex_received(1)] dispatch_def)
     (simp add: ex_ext_def ex_HandleRedeem_def ex_srv_def emit_def emits_def)


subsection \<open>The accept loop\<close>

lemma serve_loop_Accepted:
  assumes "keys (server st) \<noteq> []"
  shows "serve_loop ext d (Accepted ci # rest) st =
     serve_loop ext Millisecond rest
       (emits (SetKeepAlive # handle_events ext ci (server st)
               @ (case handle_result ext ci (server st) of
                    Returned (Some e) \<Rightarrow> [LogPrintf (error_text e)]
                  | _ \<Rightarrow> [])
               @ [ConnClose]) st)"
proof -
  obtain r where r: "handle_result ext ci (server st) = Returned r"
    using handle_returns [OF assms, of ext ci] handle_trace_independent [of ext ci st]
    by auto
  show ?thesis
    using r handle_trace_independent [of ext ci "emit SetKeepAlive st"]
    by (cases r) (simp_all add: emit_def emits_def)
qed

lemma serve_loop_step:
  assumes "keys (server st) \<noteq> []"
  shows "\<exists>d' es. serve_loop ext d (a # rest) st = serve_loop ext d' rest (emits es st)"
proof (cases a)
  case (Accepted ci)
  show ?thesis
    unfolding Accepted serve_loop_Accepted [OF assms] by blast
next
  case (AcceptFailed e t)
  show ?thesis
  proof (cases t)
    case True
    then have "serve_loop ext d (a # rest) st =
      serve_loop ext (2 * (if d > maxBackoffDelay then maxBackoffDelay else d)) rest
        (emits [Sleep (if d > maxBackoffDelay then maxBackoffDelay else d),
                Inc CounterConnErrors, LogPrintf (error_text e)] st)"
      by (simp add: AcceptFailed Let_def emit_def emits_def)
    then show ?thesis by blast
  next
    case False
    then have "serve_loop ext d (a # rest) st =
      serve_loop ext d rest (emits [Inc CounterConnErrors, LogPrintf (error_text e)] st)"
      by (simp add: AcceptFailed Let_def emit_def emits_def)
    then show ?thesis by blast
  qed
qed

lemma serve_loop_server: "keys (server st) \<noteq> [] \<Longrightarrow> server (fst (serve_loop ext d as st)) = server st"
proof (induction as arbitrary: d st)
  case Nil
  then show ?case by simp
next
  case (Cons a as)
  obtain d' es where step: "serve_loop ext d (a # as) st = serve_loop ext d' as (emits es st)"
    using serve_loop_step [OF Cons.prems] by blast
  show ?case
    unfolding step using Cons.IH [of "emits es st" d'] Cons.prems by simp
qed

lemma serve_loop_listening:
  "keys (server st) \<noteq> [] \<Longrightarrow> snd (serve_loop ext d as st) = Listening"
proof (induction as arbitrary: d st)
  case Nil
  then show ?case by simp
next
  case (Cons a as)
  obtain d' es where step: "serve_loop ext d (a # as) st = serve_loop ext d' as (emits es st)"
    using serve_loop_step [OF Cons.prems] by blast
  show ?case
    unfolding step using Cons.IH [of "emits es st" d'] Cons.prems by simp
qed

lemma serve_loop_trace_extends:
  "keys (server st) \<noteq> [] \<Longrightarrow> \<exists>post. trace (fst (serve_loop ext d as st)) = trace st @ post"
proof (induction as arbitrary: d st)
  case Nil
  then show ?case by simp
next
  case (Cons a as)
  obtain d' es where step: "serve_loop ext d (a # as) st = serve_loop ext d' as (emits es st)"
    using serve_loop_step [OF Cons.prems] by blast
  have "\<exists>post. trace (fst (serve_loop ext d' as (emits es st))) = trace (emits es st) @ post"
    by (rule Cons.IH) (simp add: Cons.prems)
  then show ?case
    unfolding step by auto
qed



text \<open>
  \<^verbatim>\<open>ListenAndServe\<close> either returns an error before it listens, having done nothing, or
  it listens, handles every connection and is waiting for the next one.
\<close>

lemma ListenAndServe_cases:
  "(\<exists>e. ListenAndServe ext sys st = (st, ServeReturned e)) \<or>
   (keys (server st) \<noteq> [] \<and>
    (\<exists>st1 a post. ListenAndServe ext sys st = (st1, Listening) \<and> server st1 = server st \<and>
       trace st1 = trace st @ Listen a # post))"
proof (cases "keys (server st) = []
    \<or> ResolveTCPAddr sys (Sprintf_addr (BindAddress (server st)) (ListenPort (server st))) \<noteq> None
    \<or> ListenTCP sys (Sprintf_addr (BindAddress (server st)) (ListenPort (server st))) \<noteq> None")
  case True
  then show ?thesis
    by (auto simp: ListenAndServe_def Let_def split: option.splits)
next
  case False
  define st1 where "st1 =
    emits [Listen (Sprintf_addr (BindAddress (server st)) (ListenPort (server st))),
           LogPrintf (''blindsigmgmt starting, version: '' @ Version),
           LogPrintf (''listening on ''
                      @ Sprintf_addr (BindAddress (server st)) (ListenPort (server st))),
           MetricsListen (Sprintf_addr (BindAddress (server st)) (MetricsPort (server st)))] st"
  have eq: "ListenAndServe ext sys st = serve_loop ext Millisecond (accepts sys) st1"
    using False by (auto simp: ListenAndServe_def Let_def st1_def)
  have k: "keys (server st1) \<noteq> []" and s: "server st1 = server st"
    using False by (simp_all add: st1_def)
  have l: "snd (serve_loop ext Millisecond (accepts sys) st1) = Listening"
    by (rule serve_loop_listening [OF k])
  obtain post
    where p: "trace (fst (serve_loop ext Millisecond (accepts sys) st1)) = trace st1 @ post"
    using serve_loop_trace_extends [OF k] by blast
  have "ListenAndServe ext sys st =
          (fst (serve_loop ext Millisecond (accepts sys) st1), Listening)"
    unfolding eq using l by (simp add: prod_eq_iff)
  moreover have "server (fst (serve_loop ext Millisecond (accepts sys) st1)) = server st"
    by (simp add: serve_loop_server [OF k] s)
  moreover have "\<exists>a post. trace (fst (serve_loop ext Millisecond (accepts sys) st1)) =
                   trace st @ Listen a # post"
    unfolding p by (simp add: st1_def)
  ultimately show ?thesis using False by auto
qed

lemma ListenAndServe_listening:
  assumes "keys (server st) \<noteq> []"
    and "ResolveTCPAddr sys (Sprintf_addr (BindAddress (server st)) (ListenPort (server st))) = None"
    and "ListenTCP sys (Sprintf_addr (BindAddress (server st)) (ListenPort (server st))) = None"
  shows "snd (ListenAndServe ext sys st) = Listening"
  using assms by (simp add: ListenAndServe_def Let_def serve_loop_listening)

subsection \<open>Startup\<close>

lemma loadConfigFile_fails:
  "fst (loadConfigFile sys filePath) = DefaultServer \<and> snd (loadConfigFile sys filePath) \<noteq> None"
  by (simp add: loadConfigFile_def Unmarshal_into_Server_value_def Let_def
        split: sum.splits option.splits)

lemma main_with_config_file:
  "flag_config fl \<noteq> [] \<Longrightarrow>
   \<exists>e. main ext sys fl =
     (\<lparr> server = DefaultServer, trace = [LogPrintf (error_text e)] \<rparr>, Fatal e)"
  using loadConfigFile_fails [of sys "flag_config fl"]
  by (cases "loadConfigFile sys (flag_config fl)")
     (auto simp: main_def Let_def fatal_def emit_def)

lemma start_cases:
  assumes "RetrieveCommPoints sys = CommitmentCheck decode_point scalar_mult"
    and "trace st0 = []"
  shows "(\<exists>st e. start ext sys st0 = (st, Fatal e) \<and> trace st = [LogPrintf (error_text e)]) \<or>
         (\<exists>st. start ext sys st0 = (st, MainPanicked) \<and> trace st = []) \<or>
         (\<exists>st a post. start ext sys st0 = (st, Serving) \<and> trace st = Listen a # post \<and>
            committed scalar_mult (server st))"
proof (cases "loadKeys sys st0")
  case (Pair st r)
  have tr: "trace st = []"
    using Pair assms(2) by (auto simp: loadKeys_def Let_def split: if_splits sum.splits)
  show ?thesis
  proof (cases r)
    case (Some e)
    with Pair tr show ?thesis by (simp add: start_def fatal_def)
  next
    case None
    note r = None
    show ?thesis
    proof (cases "ParseCommitmentFile sys (CommFilePath (server st))")
      case (Inl e)
      with Pair tr r show ?thesis by (simp add: start_def fatal_def)
    next
      case (Inr gh)
      obtain GBytes HBytes where gh: "gh = (GBytes, HBytes)" by (cases gh)
      show ?thesis
      proof (cases "keys (server st)")
        case Nil
        with Pair tr r Inr gh show ?thesis by (simp add: start_def)
      next
        case (Cons k0 ks)
        show ?thesis
        proof (cases "RetrieveCommPoints sys GBytes HBytes k0")
          case (Inl e)
          with Pair tr r Inr gh Cons show ?thesis by (simp add: start_def fatal_def)
        next
          case pts: (Inr p)
          obtain g h where p: "p = (g, h)" by (cases p)
          have hk: "h = scalar_mult k0 g"
            using pts p assms(1)
            by (auto simp: CommitmentCheck_def split: sum.splits if_splits)
          let ?st = "st\<lparr> server := (server st)\<lparr> G := Some g, H := Some h \<rparr> \<rparr>"
          have st: "start ext sys st0 =
            (case ListenAndServe ext sys ?st of
               (st1, ServeReturned e) \<Rightarrow> fatal e st1
             | (st1, Crashed) \<Rightarrow> (st1, MainPanicked)
             | (st1, Listening) \<Rightarrow> (st1, Serving))"
            using Pair r Inr gh Cons pts p by (simp add: start_def)
          have c: "committed scalar_mult (server ?st)"
            using Cons hk by (simp add: committed_def)
          from ListenAndServe_cases [of ext sys ?st]
          show ?thesis
          proof (elim disjE exE conjE)
            fix e assume "ListenAndServe ext sys ?st = (?st, ServeReturned e)"
            then show ?thesis unfolding st using tr by (simp add: fatal_def)
          next
            fix st1 a post
            assume "ListenAndServe ext sys ?st = (st1, Listening)" "server st1 = server ?st"
              "trace st1 = trace ?st @ Listen a # post"
            then show ?thesis unfolding st using tr c by simp
          qed
        qed
      qed
    qed
  qed
qed

lemma main_cases:
  assumes "RetrieveCommPoints sys = CommitmentCheck decode_point scalar_mult"
  shows "(\<exists>st e. main ext sys fl = (st, Fatal e) \<and> trace st = [LogPrintf (error_text e)]) \<or>
         (\<exists>st. main ext sys fl = (st, MainPanicked) \<and> trace st = []) \<or>
         (\<exists>st. main ext sys fl = (st, Usage) \<and> trace st = []) \<or>
         (\<exists>st a post. main ext sys fl = (st, Serving) \<and> trace st = Listen a # post \<and>
            committed scalar_mult (server st))"
proof (cases "flag_config fl = []")
  case False
  from main_with_config_file [OF False, of ext sys] show ?thesis by auto
next
  case True
  show ?thesis
  proof (cases "flag_key fl = [] \<or> flag_comm fl = []")
    case True
    with \<open>flag_config fl = []\<close> show ?thesis
      by (auto simp: main_def Let_def)
  next
    case False
    let ?st0 = "\<lparr> server = DefaultServer\<lparr> BindAddress := flag_addr fl,
                   KeyFilePath := flag_key fl, CommFilePath := flag_comm fl,
                   ListenPort := flag_p fl, MetricsPort := flag_m fl,
                   MaxTokens := flag_maxtokens fl \<rparr>, trace = [] \<rparr>"
    have "main ext sys fl = start ext sys ?st0"
      using False \<open>flag_config fl = []\<close> by (simp add: main_def Let_def)
    with start_cases [OF assms, of ?st0 ext] show ?thesis by auto
  qed
qed

lemma main_commitment_failure:
  assumes "RetrieveCommPoints sys = CommitmentCheck decode_point scalar_mult"
    and "flag_config fl = []" and "flag_key fl \<noteq> []" and "flag_comm fl \<noteq> []"
    and "ParseKeyFile sys (flag_key fl) = Inr (k0 # ks)"
  shows "case ParseCommitmentFile sys (flag_comm fl) of
           Inl e \<Rightarrow> snd (main ext sys fl) = Fatal e
         | Inr (GBytes, HBytes) \<Rightarrow>
            (case CommitmentCheck decode_point scalar_mult GBytes HBytes k0 of
               Inl e \<Rightarrow> snd (main ext sys fl) = Fatal e
             | Inr (g, h) \<Rightarrow> h = scalar_mult k0 g)"
  using assms
  by (auto simp: main_def start_def loadKeys_def fatal_def Let_def CommitmentCheck_def
        split: sum.splits prod.splits if_splits)

lemma ex_sys_checks: "RetrieveCommPoints ex_sys = CommitmentCheck ex_decode_point ex_scalar_mult"
  by (simp add: ex_sys_def)

lemma serving_if_listening:
  "snd (ListenAndServe ext sys st) = Listening \<Longrightarrow>
   snd (case ListenAndServe ext sys st of
          (st1, ServeReturned e) \<Rightarrow> fatal e st1
        | (st1, Crashed) \<Rightarrow> (st1, MainPanicked)
        | (st1, Listening) \<Rightarrow> (st1, Serving)) = Serving"
  by (cases "ListenAndServe ext sys st") auto

section \<open>The claims\<close>

subsection \<open>Binding context of a redemption\<close>




subsection \<open>Keys\<close>

text \<open>
  Claim C2: for an issuance request (a message read and decoded whose inner request has
  the type \<^verbatim>\<open>btd.ISSUE\<close>), on a server with at least one key, which is the only kind
  \<^verbatim>\<open>ListenAndServe\<close> serves with, \<^verbatim>\<open>handle\<close> calls \<^verbatim>\<open>btd.HandleIssue\<close> once, with the key at
  index 0 and with the server's \<^verbatim>\<open>G\<close>, \<^verbatim>\<open>H\<close> and \<^verbatim>\<open>MaxTokens\<close>; it returns what that call
  returns, and it does not call \<^verbatim>\<open>btd.HandleRedeem\<close>.
\<close>

theorem issue_uses_first_key:
  assumes "received ext ci = Some (w, rq)" and "Type rq = ISSUE ext" and "keys srv \<noteq> []"
  shows "issue_keys (handle_events ext ci srv) = [keys srv ! 0] \<and>
         redeem_keys (handle_events ext ci srv) = [] \<and>
         CallHandleIssue rq (keys srv ! 0) (G srv) (H srv) (MaxTokens srv)
           \<in> set (handle_events ext ci srv) \<and>
         handle_result ext ci srv =
           Returned (snd (HandleIssue ext rq (keys srv ! 0) (G srv) (H srv) (MaxTokens srv)))"
  using assms
  by (cases "keys srv")
     (auto simp: handle_events_def handle_result_def handle_received dispatch_def Let_def
           split: prod.splits option.splits)

theorem issue_uses_first_key_witness:
  "received ex_ext \<lparr> arrived = body_issue, ending = EOF \<rparr> =
     Some (\<lparr> Request = inner_issue, Host = ''a.example'', Path = ''/'' \<rparr>,
           \<lparr> Type = ''Issue'', Contents = [[CHR 0x04, CHR 0x01, CHR 0x02]] \<rparr>) \<and>
   ISSUE ex_ext = ''Issue'' \<and> keys ex_srv = [[CHR 0x07], [CHR 0x03]] \<and>
   issue_keys (handle_events ex_ext \<lparr> arrived = body_issue, ending = EOF \<rparr> ex_srv) = [[CHR 0x07]] \<and>
   redeem_keys (handle_events ex_ext \<lparr> arrived = body_issue, ending = EOF \<rparr> ex_srv) = [] \<and>
   handle_result ex_ext \<lparr> arrived = body_issue, ending = EOF \<rparr> ex_srv = Returned None"
  using issue_uses_first_key [OF ex_received(3), of ex_srv]
  by (simp add: ex_received) (simp add: ex_ext_def ex_srv_def ex_HandleIssue_def DefaultServer_def)

text \<open>
  Claim C3: for a redemption request (a message read and decoded whose inner request has
  the type \<^verbatim>\<open>btd.REDEEM\<close>; the two constants of the switch differ), \<^verbatim>\<open>handle\<close> calls
  \<^verbatim>\<open>btd.HandleRedeem\<close> once, with the whole list \<^verbatim>\<open>c.keys\<close> as it is, and returns what the
  verifier returns for that list; it does not call \<^verbatim>\<open>btd.HandleIssue\<close>.
\<close>

theorem redeem_gets_all_keys:
  assumes "received ext ci = Some (w, rq)" and "Type rq = REDEEM ext"
    and "ISSUE ext \<noteq> REDEEM ext"
  shows "redeem_keys (handle_events ext ci srv) = [keys srv] \<and>
         issue_keys (handle_events ext ci srv) = [] \<and>
         CallHandleRedeem rq (Host w) (Path w) (keys srv) \<in> set (handle_events ext ci srv) \<and>
         handle_result ext ci srv =
           Returned (snd (HandleRedeem ext rq (Host w) (Path w) (keys srv)))"
  using assms
  by (auto simp: handle_events_def handle_result_def handle_received dispatch_def Let_def
           split: prod.splits option.splits)

theorem redeem_gets_all_keys_witness:
  "received ex_ext \<lparr> arrived = body_redeem_a, ending = EOF \<rparr> =
     Some (\<lparr> Request = inner_redeem, Host = ''a.example'', Path = ''/'' \<rparr>,
           \<lparr> Type = ''Redeem'', Contents = [''token'', ''tag''] \<rparr>) \<and>
   REDEEM ex_ext = ''Redeem'' \<and> ISSUE ex_ext \<noteq> REDEEM ex_ext \<and>
   redeem_keys (handle_events ex_ext \<lparr> arrived = body_redeem_a, ending = EOF \<rparr> ex_srv) =
     [[[CHR 0x07], [CHR 0x03]]] \<and>
   issue_keys (handle_events ex_ext \<lparr> arrived = body_redeem_a, ending = EOF \<rparr> ex_srv) = [] \<and>
   handle_result ex_ext \<lparr> arrived = body_redeem_a, ending = EOF \<rparr> ex_srv = Returned None"
  using redeem_gets_all_keys [OF ex_received(1), of ex_srv]
  by (simp add: ex_received) (simp add: ex_ext_def ex_srv_def ex_HandleRedeem_def)

subsection \<open>Startup\<close>

text \<open>
  Claim C4, with \<^verbatim>\<open>crypto.RetrieveCommPoints\<close> the commitment check of section 4.4 of the
  specification. \<^verbatim>\<open>main\<close> loads the keys, parses the commitment file and runs the check
  before it calls \<^verbatim>\<open>ListenAndServe\<close>:
  \<^item> whenever the process serves, the server structure holds \<open>H = k\<^sub>0\<cdot>G\<close> for its first key;
  \<^item> the process listens only if it ends up serving;
  \<^item> a process that exits through \<^verbatim>\<open>errLog.Fatal\<close> has done nothing but log the error, and
    one that prints its usage or panics has done nothing: neither has listened or handled
    a connection;
  \<^item> started from the command line with a key file that gives at least one key, the
    process exits through \<^verbatim>\<open>errLog.Fatal\<close> with the error of \<^verbatim>\<open>crypto.ParseCommitmentFile\<close>
    if that fails, and with the error of the check if the check fails.
\<close>

theorem commitment_checked_before_listening:
  assumes "RetrieveCommPoints sys = CommitmentCheck decode_point scalar_mult"
  shows "(snd (main ext sys fl) = Serving \<longrightarrow>
            committed scalar_mult (server (fst (main ext sys fl)))) \<and>
         ((\<exists>a. Listen a \<in> set (trace (fst (main ext sys fl)))) \<longrightarrow>
            snd (main ext sys fl) = Serving) \<and>
         (case snd (main ext sys fl) of
            Fatal e \<Rightarrow> trace (fst (main ext sys fl)) = [LogPrintf (error_text e)]
          | Serving \<Rightarrow> (\<exists>a post. trace (fst (main ext sys fl)) = Listen a # post)
          | _ \<Rightarrow> trace (fst (main ext sys fl)) = []) \<and>
         (flag_config fl = [] \<and> flag_key fl \<noteq> [] \<and> flag_comm fl \<noteq> [] \<and>
          ParseKeyFile sys (flag_key fl) = Inr (k0 # ks) \<longrightarrow>
            (case ParseCommitmentFile sys (flag_comm fl) of
               Inl e \<Rightarrow> snd (main ext sys fl) = Fatal e
             | Inr (GBytes, HBytes) \<Rightarrow>
                (case CommitmentCheck decode_point scalar_mult GBytes HBytes k0 of
                   Inl e \<Rightarrow> snd (main ext sys fl) = Fatal e
                 | Inr (g, h) \<Rightarrow> h = scalar_mult k0 g)))"
proof -
  have 1: "snd (main ext sys fl) = Serving \<longrightarrow>
            committed scalar_mult (server (fst (main ext sys fl)))"
    using main_cases [OF assms, of ext fl] by auto
  have 2: "(\<exists>a. Listen a \<in> set (trace (fst (main ext sys fl)))) \<longrightarrow>
            snd (main ext sys fl) = Serving"
    using main_cases [OF assms, of ext fl] by auto
  have 3: "case snd (main ext sys fl) of
            Fatal e \<Rightarrow> trace (fst (main ext sys fl)) = [LogPrintf (error_text e)]
          | Serving \<Rightarrow> (\<exists>a post. trace (fst (main ext sys fl)) = Listen a # post)
          | _ \<Rightarrow> trace (fst (main ext sys fl)) = []"
    using main_cases [OF assms, of ext fl] by auto
  show ?thesis
    using 1 2 3 main_commitment_failure [OF assms, of fl k0 ks ext] by blast
qed

theorem commitment_checked_before_listening_witness:
  "RetrieveCommPoints ex_sys = CommitmentCheck ex_decode_point ex_scalar_mult \<and>
   ParseKeyFile ex_sys (flag_key ex_flags) = Inr [[CHR 0x07], [CHR 0x03]] \<and>
   ParseCommitmentFile ex_sys ''comm.json'' = Inr ([CHR 0x01], [CHR 0x07]) \<and>
   CommitmentCheck ex_decode_point ex_scalar_mult [CHR 0x01] [CHR 0x07] [CHR 0x07] = Inr (1, 7) \<and>
   snd (main ex_ext ex_sys ex_flags) = Serving \<and>
   committed ex_scalar_mult (server (fst (main ex_ext ex_sys ex_flags))) \<and>
   ParseCommitmentFile ex_sys ''other.json'' = Inr ([CHR 0x01], [CHR 0x08]) \<and>
   CommitmentCheck ex_decode_point ex_scalar_mult [CHR 0x01] [CHR 0x08] [CHR 0x07]
     = Inl CommitmentMismatch \<and>
   snd (main ex_ext ex_sys (ex_flags\<lparr> flag_comm := ''other.json'' \<rparr>)) = Fatal CommitmentMismatch \<and>
   trace (fst (main ex_ext ex_sys (ex_flags\<lparr> flag_comm := ''other.json'' \<rparr>)))
     = [LogPrintf ''CommitmentMismatch'']"
proof -
  have files: "ParseKeyFile ex_sys (flag_key ex_flags) = Inr [[CHR 0x07], [CHR 0x03]]"
    "ParseCommitmentFile ex_sys ''comm.json'' = Inr ([CHR 0x01], [CHR 0x07])"
    "ParseCommitmentFile ex_sys ''other.json'' = Inr ([CHR 0x01], [CHR 0x08])"
    by (simp_all add: ex_sys_def ex_flags_def default_flags_def)
  have checks:
    "CommitmentCheck ex_decode_point ex_scalar_mult [CHR 0x01] [CHR 0x07] [CHR 0x07] = Inr (1, 7)"
    "CommitmentCheck ex_decode_point ex_scalar_mult [CHR 0x01] [CHR 0x08] [CHR 0x07]
       = Inl CommitmentMismatch"
    by (simp_all add: CommitmentCheck_def ex_decode_point_def ex_scalar_mult_def scalar_of_def)
  have net: "ResolveTCPAddr ex_sys a = None" "ListenTCP ex_sys a = None" for a
    by (simp_all add: ex_sys_def)
  have serving: "snd (main ex_ext ex_sys ex_flags) = Serving"
    using files
    by (simp add: main_def start_def loadKeys_def Let_def ex_flags_def default_flags_def
          DefaultServer_def ex_sys_checks checks serving_if_listening ListenAndServe_listening
          net)
  note ok = commitment_checked_before_listening [OF ex_sys_checks, of ex_ext ex_flags
      "[CHR 0x07]" "[[CHR 0x03]]"]
  note bad = commitment_checked_before_listening [OF ex_sys_checks, of ex_ext
      "ex_flags\<lparr> flag_comm := ''other.json'' \<rparr>" "[CHR 0x07]" "[[CHR 0x03]]"]
  have fatal: "snd (main ex_ext ex_sys (ex_flags\<lparr> flag_comm := ''other.json'' \<rparr>))
      = Fatal CommitmentMismatch"
    using bad files checks by (simp add: ex_flags_def default_flags_def ex_sys_def)
  have "trace (fst (main ex_ext ex_sys (ex_flags\<lparr> flag_comm := ''other.json'' \<rparr>)))
     = [LogPrintf ''CommitmentMismatch'']"
    using bad fatal by (simp add: CommitmentMismatch_def)
  then show ?thesis
    using ex_sys_checks files checks serving ok fatal by simp
qed

subsection \<open>The size of a request\<close>

text \<open>
  A message longer than \<open>maxRequestSize\<close> is not refused: \<^verbatim>\<open>handle\<close> reads its first
  \<open>maxRequestSize\<close> bytes and goes on with them as with a message that ended there.
\<close>

lemma handle_truncates:
  assumes "maxRequestSize \<le> length (arrived ci)"
  shows "handle ext ci st =
           handle ext \<lparr> arrived = take maxRequestSize (arrived ci), ending = EOF \<rparr> st"
  using assms by (simp add: handle_def read_request_def)

text \<open>
  Claim C5 fails on the code. The message is the redemption envelope \<open>body_redeem_a\<close>
  followed by 20480 spaces, 20591 bytes in all. \<^verbatim>\<open>handle\<close> does not return
  \<^verbatim>\<open>ErrRequestTooLarge\<close>, which no line of \<^verbatim>\<open>main.go\<close> returns: it decodes the first 20480
  bytes, calls \<^verbatim>\<open>btd.HandleRedeem\<close> and returns nil.
\<close>

theorem oversized_request_is_processed:
  "length (body_redeem_a @ replicate 20480 (CHR '' '')) = 20591 \<and>
   maxRequestSize = 20480 \<and>
   handle ex_ext \<lparr> arrived = body_redeem_a @ replicate 20480 (CHR '' ''), ending = EOF \<rparr> ex_st =
     (\<lparr> server = ex_srv, trace =
         [Inc CounterConnections, SetReadDeadline 100, Inc CounterRedeemTotal,
          CallHandleRedeem \<lparr> Type = ''Redeem'', Contents = [''token'', ''tag''] \<rparr>
            ''a.example'' ''/'' [[CHR 0x07], [CHR 0x03]],
          ConnWrite ''success''] \<rparr>,
      Returned None)"
proof -
  let ?ci = "\<lparr> arrived = body_redeem_a @ replicate 20480 (CHR '' ''), ending = EOF \<rparr>"
  have r: "read_request ?ci = (body_redeem_a @ replicate 20369 (CHR '' ''), None)"
    by (simp add: read_request_def maxRequestSize_def bodies_length)
  have w: "ex_unmarshal_wrapper (body_redeem_a @ replicate 20369 (CHR '' '')) =
      Inr \<lparr> Request = inner_redeem, Host = ''a.example'', Path = ''/'' \<rparr>"
    by (simp add: ex_unmarshal_wrapper_def trim_padded_redeem_a)
  have "received ex_ext ?ci =
     Some (\<lparr> Request = inner_redeem, Host = ''a.example'', Path = ''/'' \<rparr>,
           \<lparr> Type = ''Redeem'', Contents = [''token'', ''tag''] \<rparr>)"
    by (simp add: received_def r) (simp add: ex_ext_def w ex_requests)
  then have "handle ex_ext ?ci ex_st =
      dispatch ex_ext \<lparr> Request = inner_redeem, Host = ''a.example'', Path = ''/'' \<rparr>
        \<lparr> Type = ''Redeem'', Contents = [''token'', ''tag''] \<rparr>
        (emit (SetReadDeadline 100) (emit (Inc CounterConnections) ex_st))"
    by (rule handle_received)
  also have "\<dots> = (\<lparr> server = ex_srv, trace =
         [Inc CounterConnections, SetReadDeadline 100, Inc CounterRedeemTotal,
          CallHandleRedeem \<lparr> Type = ''Redeem'', Contents = [''token'', ''tag''] \<rparr>
            ''a.example'' ''/'' [[CHR 0x07], [CHR 0x03]],
          ConnWrite ''success''] \<rparr>,
      Returned None)"
    by (simp add: dispatch_def)
       (simp add: ex_ext_def ex_HandleRedeem_def ex_srv_def ex_st_def emit_def emits_def)
  finally show ?thesis
    by (simp add: bodies_length maxRequestSize_def)
qed

subsection \<open>Errors of a request\<close>





subsection \<open>The configuration file\<close>

text \<open>
  Claim C8 fails on the code. \<^verbatim>\<open>loadConfigFile\<close> hands \<^verbatim>\<open>json.Unmarshal\<close> the structure
  \<^verbatim>\<open>conf\<close> and not a pointer to it, so for a file that exists and holds well-formed JSON it
  returns the defaults together with an \<^verbatim>\<open>InvalidUnmarshalError\<close>, and \<^verbatim>\<open>main\<close>, started with
  \<^verbatim>\<open>-config conf.json\<close>, logs that error and exits: nothing of the file reaches the server
  structure.
\<close>

theorem config_file_is_never_loaded:
  "ReadFile ex_sys ''conf.json'' = Inr config_text \<and>
   json_checkValid ex_sys config_text = None \<and>
   loadConfigFile ex_sys ''conf.json'' =
     (DefaultServer, Some (ErrorValue ''json: Unmarshal(non-pointer main.Server)'')) \<and>
   main ex_ext ex_sys (ex_flags\<lparr> flag_config := ''conf.json'' \<rparr>) =
     (\<lparr> server = DefaultServer,
        trace = [LogPrintf ''json: Unmarshal(non-pointer main.Server)''] \<rparr>,
      Fatal (ErrorValue ''json: Unmarshal(non-pointer main.Server)''))"
proof -
  have r: "ReadFile ex_sys ''conf.json'' = Inr config_text"
    "json_checkValid ex_sys config_text = None"
    by (simp_all add: ex_sys_def)
  have l: "loadConfigFile ex_sys ''conf.json'' =
     (DefaultServer, Some (ErrorValue ''json: Unmarshal(non-pointer main.Server)''))"
    by (simp add: loadConfigFile_def Unmarshal_into_Server_value_def r)
  show ?thesis
    by (simp add: r l main_def fatal_def emit_def)
qed

subsection \<open>The handler and the server structure\<close>

text \<open>
  Claim C9. After \<^verbatim>\<open>handle\<close>, however it ends, the server structure (the keys, \<^verbatim>\<open>G\<close>,
  \<^verbatim>\<open>H\<close>, \<^verbatim>\<open>MaxTokens\<close> and every other field) is what it was before; and so it is after
  all the connections a listening \<^verbatim>\<open>ListenAndServe\<close> has handled. The handlers of package
  \<^verbatim>\<open>btd\<close> are taken not to write through the slices and pointers they are given.
\<close>

theorem handle_leaves_server_unchanged:
  "server (fst (handle ext ci st)) = server st \<and>
   server (fst (ListenAndServe ext sys st)) = server st"
  using ListenAndServe_cases [of ext sys st] by (auto simp: handle_server)

subsection \<open>The read deadline\<close>

text \<open>
  Claim C10. When the read ends with the error \<^verbatim>\<open>i/o timeout\<close> of a \<^verbatim>\<open>*net.OpError\<close>:
  if at least one byte has arrived, \<^verbatim>\<open>handle\<close> does and returns what it does and returns
  when the same bytes are followed by the end of the stream; if no byte has arrived, it
  increments \<^verbatim>\<open>CounterConnErrors\<close> and returns the error.
\<close>

theorem read_deadline_with_data:
  assumes "ending ci = ReadError (OpError full ''i/o timeout'')"
  shows "(arrived ci \<noteq> [] \<longrightarrow> handle ext ci st = handle ext (ci\<lparr> ending := EOF \<rparr>) st) \<and>
         (arrived ci = [] \<longrightarrow>
            handle ext ci st =
              (emit (Inc CounterConnErrors)
                 (emit (SetReadDeadline 100) (emit (Inc CounterConnections) st)),
               Returned (Some (OpError full ''i/o timeout''))))"
  using assms by (auto simp: handle_def read_request_def Let_def maxRequestSize_def)

theorem read_deadline_with_data_witness:
  "timeout_error = OpError ''read tcp 127.0.0.1:2416: i/o timeout'' ''i/o timeout'' \<and>
   handle ex_ext \<lparr> arrived = body_redeem_a, ending = ReadError timeout_error \<rparr> ex_st =
     (\<lparr> server = ex_srv, trace =
         [Inc CounterConnections, SetReadDeadline 100, Inc CounterRedeemTotal,
          CallHandleRedeem \<lparr> Type = ''Redeem'', Contents = [''token'', ''tag''] \<rparr>
            ''a.example'' ''/'' [[CHR 0x07], [CHR 0x03]],
          ConnWrite ''success''] \<rparr>,
      Returned None) \<and>
   handle ex_ext \<lparr> arrived = [], ending = ReadError timeout_error \<rparr> ex_st =
     (\<lparr> server = ex_srv, trace =
         [Inc CounterConnections, SetReadDeadline 100, Inc CounterConnErrors] \<rparr>,
      Returned (Some timeout_error))"
proof -
  have n: "body_redeem_a \<noteq> []"
    by (simp add: body_redeem_a_def)
  show ?thesis
    using read_deadline_with_data [of "\<lparr> arrived = body_redeem_a, ending = ReadError timeout_error \<rparr>"
        "''read tcp 127.0.0.1:2416: i/o timeout''" ex_ext ex_st]
      read_deadline_with_data [of "\<lparr> arrived = [], ending = ReadError timeout_error \<rparr>"
        "''read tcp 127.0.0.1:2416: i/o timeout''" ex_ext ex_st]
      n
    by (simp add: timeout_error_def) (simp add: ex_st_def ex_handle_redeem_a emit_def)
qed

end
